theory Spec2Isabelle
  imports Complex_Main
begin

section \<open>Number values\<close>

text \<open>
  The script computes with JavaScript Number values: IEEE 754 binary64 doubles.  A double is
  modelled by its exact value: not-a-number, an infinity with its sign bit, or a finite
  value given by its sign bit (\<open>True\<close> is negative, so both zeros exist) and its magnitude,
  a non-negative rational.
\<close>

datatype number = NaN | Infinity bool | Finite bool rat

definition pow2 :: "int \<Rightarrow> rat" where
  "pow2 e = (if 0 \<le> e then 2 ^ nat e else 1 / 2 ^ nat (- e))"

definition pow10 :: "int \<Rightarrow> rat" where
  "pow10 e = (if 0 \<le> e then 10 ^ nat e else 1 / 10 ^ nat (- e))"

fun bitlen :: "nat \<Rightarrow> nat" where
  "bitlen n = (if n = 0 then 0 else Suc (bitlen (n div 2)))"

declare bitlen.simps [simp del]

text \<open>\<open>ilog2 q\<close> is the exponent \<open>e\<close> with \<open>2 ^ e \<le> q < 2 ^ (e + 1)\<close>, for \<open>q > 0\<close>.\<close>

definition ilog2 :: "rat \<Rightarrow> int" where
  "ilog2 q =
     (if 1 \<le> q then int (bitlen (nat \<lfloor>q\<rfloor>)) - 1
      else let y = 1 / q; l = int (bitlen (nat \<lfloor>y\<rfloor>))
           in if y = pow2 (l - 1) then 1 - l else - l)"

definition round_half_even :: "rat \<Rightarrow> int" where
  "round_half_even r =
     (let f = \<lfloor>r\<rfloor>; d = r - of_int f
      in if d < 1 / 2 then f
         else if 1 / 2 < d then f + 1
         else if even f then f else f + 1)"

text \<open>
  Rounding of an exact magnitude to the nearest double, ties to even: 53 significant bits,
  least exponent \<open>-1022\<close> (below it the subnormal spacing \<open>2 ^ -1074\<close>), overflow to
  infinity from \<open>2 ^ 1024\<close>.
\<close>

definition round64 :: "bool \<Rightarrow> rat \<Rightarrow> number" where
  "round64 s q =
     (if q = 0 then Finite s 0
      else let e = max (ilog2 q) (- 1022);
               ulp = pow2 (e - 52);
               v = of_int (round_half_even (q / ulp)) * ulp
           in if pow2 1024 \<le> v then Infinity s else Finite s v)"

text \<open>The operator \<open>/\<close> on two Numbers (Number::divide).\<close>

fun number_divide :: "number \<Rightarrow> number \<Rightarrow> number" where
  "number_divide NaN _ = NaN"
| "number_divide _ NaN = NaN"
| "number_divide (Infinity _) (Infinity _) = NaN"
| "number_divide (Infinity s) (Finite t _) = Infinity (s \<noteq> t)"
| "number_divide (Finite s _) (Infinity t) = Finite (s \<noteq> t) 0"
| "number_divide (Finite s a) (Finite t b) =
     (if b = 0 then (if a = 0 then NaN else Infinity (s \<noteq> t))
      else round64 (s \<noteq> t) (a / b))"

section \<open>Numbers to strings\<close>

definition digit_char :: "nat \<Rightarrow> char" where
  "digit_char d = ''0123456789'' ! d"

fun digits :: "nat \<Rightarrow> string" where
  "digits n = (if n < 10 then [digit_char n] else digits (n div 10) @ [digit_char (n mod 10)])"

declare digits.simps [simp del]

text \<open>
  The decimal position of a positive magnitude: \<open>decimal_exponent x\<close> is the \<open>n\<close> with
  \<open>10 ^ (n - 1) \<le> x < 10 ^ n\<close>.
\<close>

definition decimal_exponent :: "rat \<Rightarrow> int" where
  "decimal_exponent x =
     (if 1 \<le> x then int (length (digits (nat \<lfloor>x\<rfloor>)))
      else let y = 1 / x; l = int (length (digits (nat \<lfloor>y\<rfloor>)))
           in if y = pow10 (l - 1) then 2 - l else 1 - l)"

text \<open>
  Number::toString picks integers \<open>n\<close>, \<open>k\<close>, \<open>s\<close> with \<open>k\<close> digits in \<open>s\<close>, such that
  \<open>s * 10 ^ (n - k)\<close> rounds to the double \<open>x\<close> and \<open>k\<close> is as small as possible; among
  several \<open>s\<close> the one closest to \<open>x\<close>, and the even one of two equally close.
  \<open>candidates x k\<close> lists the pairs \<open>(n, s)\<close> that qualify for a given \<open>k\<close>.
\<close>

definition candidates :: "rat \<Rightarrow> nat \<Rightarrow> (int \<times> nat) list" where
  "candidates x k =
     (let n0 = decimal_exponent x
      in concat (map (\<lambda>n.
           let scale = pow10 (n - int k); lo = nat \<lfloor>x / scale\<rfloor>
           in filter (\<lambda>(n, s). 10 ^ (k - 1) \<le> s \<and> s < 10 ^ k
                       \<and> round64 False (of_nat s * scale) = Finite False x)
                [(n, lo), (n, lo + 1)])
         [n0, n0 + 1]))"

definition distance :: "rat \<Rightarrow> nat \<Rightarrow> int \<times> nat \<Rightarrow> rat" where
  "distance x k c = \<bar>of_nat (snd c) * pow10 (fst c - int k) - x\<bar>"

fun closest :: "rat \<Rightarrow> nat \<Rightarrow> (int \<times> nat) list \<Rightarrow> (int \<times> nat) option" where
  "closest x k [] = None"
| "closest x k (c # cs) =
     (case closest x k cs of
        None \<Rightarrow> Some c
      | Some c' \<Rightarrow>
          if distance x k c < distance x k c' then Some c
          else if distance x k c' < distance x k c then Some c'
          else if even (snd c) then Some c else Some c')"

fun shortest :: "rat \<Rightarrow> nat \<Rightarrow> nat \<Rightarrow> int \<times> nat \<times> nat" where
  "shortest x k 0 = (decimal_exponent x, k, 0)"
| "shortest x k (Suc fuel) =
     (case closest x k (candidates x k) of
        Some (n, s) \<Rightarrow> (n, k, s)
      | None \<Rightarrow> shortest x (Suc k) fuel)"

definition zeros :: "nat \<Rightarrow> string" where
  "zeros n = replicate n (CHR ''0'')"

definition number_to_string :: "number \<Rightarrow> string" where
  "number_to_string x =
     (case x of
        NaN \<Rightarrow> ''NaN''
      | Infinity s \<Rightarrow> (if s then ''-Infinity'' else ''Infinity'')
      | Finite sg q \<Rightarrow>
          if q = 0 then ''0''
          else
            let (n, k, s) = shortest q 1 17;
                ds = digits s;
                body =
                  (if int k \<le> n \<and> n \<le> 21 then ds @ zeros (nat (n - int k))
                   else if 0 < n \<and> n \<le> 21 then take (nat n) ds @ ''.'' @ drop (nat n) ds
                   else if - 6 < n \<and> n \<le> 0 then ''0.'' @ zeros (nat (- n)) @ ds
                   else
                     let e = n - 1;
                         es = (if e < 0 then ''-'' else ''+'') @ digits (nat \<bar>e\<bar>)
                     in if k = 1 then ds @ ''e'' @ es
                        else take 1 ds @ ''.'' @ drop 1 ds @ ''e'' @ es)
            in (if sg then ''-'' else '''') @ body)"

text \<open>
  \<open>Number.prototype.toFixed(f)\<close>: a non-finite value prints as Number::toString does; the
  sign is that of a value below zero (minus zero prints unsigned); a magnitude of
  \<open>10 ^ 21\<close> or more prints as Number::toString does; otherwise \<open>n\<close> is the integer
  with \<open>n / 10 ^ f\<close> nearest the magnitude, the larger of two, printed with the point
  before its last \<open>f\<close> digits.  The RangeError for more than 100 fraction digits is left
  out: the script asks for \<open>2\<close>.
\<close>

definition toFixed :: "number \<Rightarrow> nat \<Rightarrow> string" where
  "toFixed x f =
     (case x of
        Finite sg q \<Rightarrow>
          let s = (if sg \<and> q \<noteq> 0 then ''-'' else '''')
          in if 10 ^ 21 \<le> q then s @ number_to_string (Finite False q)
             else
               let n = nat \<lfloor>q * 10 ^ f + 1 / 2\<rfloor>;
                   m = digits n;
                   k = length m;
                   m = (if k \<le> f then zeros (f + 1 - k) @ m else m);
                   k = (if k \<le> f then f + 1 else k)
               in s @ (if f \<noteq> 0 then take (k - f) m @ ''.'' @ drop (k - f) m else m)
      | _ \<Rightarrow> number_to_string x)"

section \<open>Strings to numbers\<close>

text \<open>
  StringToNumber, the coercion of a string operand of \<open>/\<close>: white space around the text
  is dropped, the empty text is \<open>+0\<close>, the text is read as a hexadecimal, octal or binary
  integer (\<open>0x\<close>, \<open>0o\<close>, \<open>0b\<close>, unsigned) or as a signed decimal literal with optional
  fraction and exponent or \<open>Infinity\<close>, and any other text is not-a-number.  Strings are
  sequences of 8-bit characters here, so of the white space characters those up to
  \<open>0xA0\<close> are recognised.
\<close>

definition is_space :: "char \<Rightarrow> bool" where
  "is_space c = (c \<in> set [CHR 0x09, CHR 0x0A, CHR 0x0B, CHR 0x0C, CHR 0x0D, CHR 0x20, CHR 0xA0])"

definition trim :: "string \<Rightarrow> string" where
  "trim s = rev (dropWhile is_space (rev (dropWhile is_space s)))"

fun index_of :: "char \<Rightarrow> string \<Rightarrow> nat option" where
  "index_of c [] = None"
| "index_of c (d # ds) = (if c = d then Some 0 else map_option Suc (index_of c ds))"

definition digit_of :: "nat \<Rightarrow> char \<Rightarrow> nat option" where
  "digit_of radix c =
     (let v = (case index_of c ''0123456789abcdef'' of
                 Some v \<Rightarrow> Some v
               | None \<Rightarrow> map_option (\<lambda>v. 10 + v) (index_of c ''ABCDEF''))
      in case v of None \<Rightarrow> None | Some v \<Rightarrow> if v < radix then Some v else None)"

fun read_digits :: "nat \<Rightarrow> string \<Rightarrow> nat \<Rightarrow> nat option" where
  "read_digits radix [] acc = Some acc"
| "read_digits radix (c # cs) acc =
     (case digit_of radix c of
        None \<Rightarrow> None
      | Some v \<Rightarrow> read_digits radix cs (acc * radix + v))"

definition is_decimal_digit :: "char \<Rightarrow> bool" where
  "is_decimal_digit c = (digit_of 10 c \<noteq> None)"

definition non_decimal_literal :: "string \<Rightarrow> number option" where
  "non_decimal_literal s =
     (case s of
        c0 # c1 # ds \<Rightarrow>
          let radix = (if c1 = CHR ''x'' \<or> c1 = CHR ''X'' then 16
                       else if c1 = CHR ''o'' \<or> c1 = CHR ''O'' then 8
                       else if c1 = CHR ''b'' \<or> c1 = CHR ''B'' then 2 else 0)
          in if c0 = CHR ''0'' \<and> radix \<noteq> 0 \<and> ds \<noteq> []
             then map_option (\<lambda>n. round64 False (of_nat n)) (read_digits radix ds 0)
             else None
      | _ \<Rightarrow> None)"

definition split_sign :: "string \<Rightarrow> bool \<times> string" where
  "split_sign s =
     (case s of
        c # r \<Rightarrow> if c = CHR ''+'' then (False, r) else if c = CHR ''-'' then (True, r) else (False, s)
      | [] \<Rightarrow> (False, s))"

definition exponent_part :: "string \<Rightarrow> int option" where
  "exponent_part s =
     (case s of
        [] \<Rightarrow> Some 0
      | c # t \<Rightarrow>
          if c = CHR ''e'' \<or> c = CHR ''E''
          then let (neg, ds) = split_sign t
               in if ds = [] then None
                  else map_option (\<lambda>n. if neg then - int n else int n) (read_digits 10 ds 0)
          else None)"

definition decimal_literal :: "string \<Rightarrow> number" where
  "decimal_literal s =
     (let (sg, u) = split_sign s
      in if u = ''Infinity'' then Infinity sg
         else
           let ip = takeWhile is_decimal_digit u;
               r1 = dropWhile is_decimal_digit u;
               (fp, r2) =
                 (case r1 of
                    c # t \<Rightarrow>
                      if c = CHR ''.''
                      then (takeWhile is_decimal_digit t, dropWhile is_decimal_digit t)
                      else ([], r1)
                  | [] \<Rightarrow> ([], r1))
           in if ip = [] \<and> fp = [] then NaN
              else case exponent_part r2 of
                     None \<Rightarrow> NaN
                   | Some e \<Rightarrow>
                       (case read_digits 10 (ip @ fp) 0 of
                          None \<Rightarrow> NaN
                        | Some m \<Rightarrow> round64 sg (of_nat m * pow10 (e - int (length fp)))))"

definition string_to_number :: "string \<Rightarrow> number" where
  "string_to_number str =
     (let s = trim str
      in if s = [] then Finite False 0
         else case non_decimal_literal s of
                Some v \<Rightarrow> v
              | None \<Rightarrow> decimal_literal s)"

section \<open>Parsed documents and their coercions\<close>

text \<open>
  What \<open>response.json()\<close> yields: a JSON value.  An object is the list of its own
  properties (each key once).  Exceptions of the script are values of \<open>error\<close>: a fetch
  that fails, a body that is no JSON text, and a TypeError raised by the evaluation of the
  ratio.
\<close>

datatype error = NetworkError | SyntaxError | TypeError

datatype json =
    JNull
  | JBool bool
  | JNumber number
  | JString string
  | JArray "json list"
  | JObject "(string \<times> json) list"

text \<open>
  ToString of a parsed value.  An array prints its elements joined by commas, \<open>null\<close>
  elements as the empty string.  An object prints as \<open>[object Object]\<close> through the
  inherited method; an own property \<open>toString\<close> (never callable in a parsed document)
  hides that method, and the conversion throws.
\<close>

fun to_string :: "json \<Rightarrow> error + string"
  and join :: "json list \<Rightarrow> error + string" where
  "to_string JNull = Inr ''null''"
| "to_string (JBool b) = Inr (if b then ''true'' else ''false'')"
| "to_string (JNumber x) = Inr (number_to_string x)"
| "to_string (JString s) = Inr s"
| "to_string (JArray xs) = join xs"
| "to_string (JObject kvs) =
     (if map_of kvs ''toString'' \<noteq> None then Inl TypeError else Inr ''[object Object]'')"
| "join [] = Inr []"
| "join (x # xs) =
     (case (if x = JNull then Inr [] else to_string x) of
        Inl e \<Rightarrow> Inl e
      | Inr s \<Rightarrow>
          if xs = [] then Inr s
          else (case join xs of Inl e \<Rightarrow> Inl e | Inr t \<Rightarrow> Inr (s @ '','' @ t)))"

text \<open>
  ToNumber of an operand of \<open>/\<close>; \<open>None\<close> is \<open>undefined\<close>, the value of a property that
  is not there.
\<close>

definition to_number :: "json option \<Rightarrow> error + number" where
  "to_number v =
     (case v of
        None \<Rightarrow> Inr NaN
      | Some JNull \<Rightarrow> Inr (Finite False 0)
      | Some (JBool b) \<Rightarrow> Inr (Finite False (if b then 1 else 0))
      | Some (JNumber x) \<Rightarrow> Inr x
      | Some (JString s) \<Rightarrow> Inr (string_to_number s)
      | Some w \<Rightarrow> (case to_string w of Inl e \<Rightarrow> Inl e | Inr s \<Rightarrow> Inr (string_to_number s)))"

text \<open>
  The property access \<open>data.quoteVolume\<close>: a TypeError on \<open>null\<close>, the own property of an
  object, and \<open>undefined\<close> otherwise (numbers, booleans, strings and arrays have no
  property of that name).
\<close>

definition quoteVolume :: "json \<Rightarrow> error + json option" where
  "quoteVolume data =
     (case data of
        JNull \<Rightarrow> Inl TypeError
      | JObject kvs \<Rightarrow> Inr (map_of kvs ''quoteVolume'')
      | _ \<Rightarrow> Inr None)"

section \<open>The click handler\<close>

text \<open>
  A response carries its status and its body; the body is given as the parser reads it,
  \<open>None\<close> for a text that is not JSON.  A promise that the handler awaits is given
  settled: rejected with an error or fulfilled with a value.  The model describes the
  invocations in which every awaited promise settles.
\<close>

record response =
  status :: nat
  body :: "json option"

datatype 'a promise = Rejected error | Fulfilled 'a

text \<open>
  The page: the values of the two input fields \<open>crypto1\<close> and \<open>crypto2\<close> and the text of
  the display element \<open>crypto-data\<close>; the three elements are taken to exist.
  The handler's effects are recorded in order: a request sent, the settling of an awaited
  fetch, an assignment to the display element's text, a record on the console.
\<close>

record page =
  crypto1_value :: string
  crypto2_value :: string
  crypto_data_text :: string

datatype event =
    Request string
  | Settled "response promise"
  | SetTextContent string
  | ConsoleError error

definition ticker_url :: "string \<Rightarrow> string" where
  "ticker_url symbol = ''https://api.binance.com/api/v3/ticker/24hr?symbol='' @ symbol"

definition json_body :: "response \<Rightarrow> error + json" where
  "json_body r = (case body r of None \<Rightarrow> Inl SyntaxError | Some v \<Rightarrow> Inr v)"

definition marketCapRatio :: "json \<Rightarrow> json \<Rightarrow> error + string" where
  "marketCapRatio data1 data2 =
     (case quoteVolume data1 of Inl e \<Rightarrow> Inl e | Inr v1 \<Rightarrow>
      case quoteVolume data2 of Inl e \<Rightarrow> Inl e | Inr v2 \<Rightarrow>
      case to_number v1 of Inl e \<Rightarrow> Inl e | Inr n1 \<Rightarrow>
      case to_number v2 of Inl e \<Rightarrow> Inl e | Inr n2 \<Rightarrow>
      Inr (toFixed (number_divide n1 n2) 2))"

text \<open>
  The \<open>try\<close> block: its effects, and either the exception that leaves it or its normal
  end.
\<close>

definition try_block ::
  "string \<Rightarrow> string \<Rightarrow> response promise \<Rightarrow> response promise \<Rightarrow> event list \<times> (error + unit)" where
  "try_block crypto1 crypto2 fetch1 fetch2 =
     (let sent1 = [Request (ticker_url crypto1), Settled fetch1]
      in case fetch1 of
           Rejected err \<Rightarrow> (sent1, Inl err)
         | Fulfilled response1 \<Rightarrow>
             let sent2 = sent1 @ [Request (ticker_url crypto2), Settled fetch2]
             in case fetch2 of
                  Rejected err \<Rightarrow> (sent2, Inl err)
                | Fulfilled response2 \<Rightarrow>
                    (case json_body response1 of Inl err \<Rightarrow> (sent2, Inl err) | Inr data1 \<Rightarrow>
                     case json_body response2 of Inl err \<Rightarrow> (sent2, Inl err) | Inr data2 \<Rightarrow>
                     case marketCapRatio data1 data2 of Inl err \<Rightarrow> (sent2, Inl err) | Inr ratio \<Rightarrow>
                       (sent2 @ [SetTextContent (''1 '' @ crypto1 @ '' = '' @ ratio @ '' '' @ crypto2)],
                        Inr ())))"

text \<open>
  The handler: the two input values are read, the \<open>try\<close> block runs, and the \<open>catch\<close>
  block handles whatever it throws.  The second component is the completion of the
  handler itself: \<open>Inl\<close> would be an exception that escapes it.
\<close>

definition click_handler ::
  "page \<Rightarrow> response promise \<Rightarrow> response promise \<Rightarrow> event list \<times> (error + unit)" where
  "click_handler p fetch1 fetch2 =
     (let crypto1 = crypto1_value p;
          crypto2 = crypto2_value p;
          (effects, completion) = try_block crypto1 crypto2 fetch1 fetch2
      in case completion of
           Inr u \<Rightarrow> (effects, Inr ())
         | Inl err \<Rightarrow>
             (effects @ [SetTextContent ''Error fetching data.'', ConsoleError err], Inr ()))"

fun apply_event :: "event \<Rightarrow> page \<Rightarrow> page" where
  "apply_event (SetTextContent s) p = p\<lparr>crypto_data_text := s\<rparr>"
| "apply_event _ p = p"

definition effects_of :: "page \<Rightarrow> response promise \<Rightarrow> response promise \<Rightarrow> event list" where
  "effects_of p fetch1 fetch2 = fst (click_handler p fetch1 fetch2)"

definition page_after :: "page \<Rightarrow> response promise \<Rightarrow> response promise \<Rightarrow> page" where
  "page_after p fetch1 fetch2 = fold apply_event (effects_of p fetch1 fetch2) p"

definition display :: "page \<Rightarrow> response promise \<Rightarrow> response promise \<Rightarrow> string" where
  "display p fetch1 fetch2 = crypto_data_text (page_after p fetch1 fetch2)"

section \<open>The specification's rendering of the ratio\<close>

text \<open>
  From the specification, not from the script: a magnitude "formatted to exactly two
  decimal places" is the nearest number of hundredths (the larger of two equally near),
  written as its integer part, a point and two digits, after a minus sign for a value
  below zero.
\<close>

definition two_decimal_places :: "bool \<Rightarrow> rat \<Rightarrow> string" where
  "two_decimal_places sg q =
     (let n = nat \<lfloor>q * 100 + 1 / 2\<rfloor>
      in (if sg \<and> q \<noteq> 0 then ''-'' else '''')
         @ digits (n div 100) @ ''.'' @ [digit_char (n div 10 mod 10), digit_char (n mod 10)])"

section \<open>Properties of the number model\<close>

lemma bitlen_bounds: "0 < n \<Longrightarrow> 2 ^ (bitlen n - 1) \<le> n \<and> n < 2 ^ bitlen n"
proof (induction n rule: bitlen.induct)
  case (1 n)
  show ?case
  proof (cases "n div 2 = 0")
    case True
    with "1.prems" have "n = 1" by (simp add: div_eq_0_iff)
    then show ?thesis by (simp add: bitlen.simps)
  next
    case False
    then have pos: "0 < n div 2" by simp
    with "1.prems" "1.IH" have IH: "2 ^ (bitlen (n div 2) - 1) \<le> n div 2" "n div 2 < 2 ^ bitlen (n div 2)"
      by simp_all
    have b: "bitlen n = Suc (bitlen (n div 2))"
      using "1.prems" by (subst bitlen.simps) simp
    have bpos: "0 < bitlen (n div 2)"
      using pos by (subst bitlen.simps) simp
    then have e: "bitlen n - 1 = Suc (bitlen (n div 2) - 1)"
      using b by simp
    have "2 ^ (bitlen n - 1) = 2 * 2 ^ (bitlen (n div 2) - 1)"
      by (simp only: e power_Suc)
    also have "\<dots> \<le> 2 * (n div 2)" using IH(1) by simp
    also have "\<dots> \<le> n" by simp
    finally have lower: "2 ^ (bitlen n - 1) \<le> n" .
    have "n < 2 * (n div 2) + 2" by linarith
    also have "\<dots> \<le> 2 * 2 ^ bitlen (n div 2)" using IH(2) by simp
    also have "\<dots> = 2 ^ bitlen n" by (simp add: b)
    finally show ?thesis using lower by simp
  qed
qed

lemma power2_le_of_nat:
  assumes "2 ^ k \<le> (f::nat)"
  shows "(2::rat) ^ k \<le> of_nat f"
proof -
  have "(of_nat (2 ^ k) :: rat) \<le> of_nat f"
    using assms by (simp only: of_nat_le_iff)
  then show ?thesis by simp
qed

lemma of_nat_less_power2:
  assumes "(f::nat) < 2 ^ b"
  shows "of_nat f + 1 \<le> (2::rat) ^ b"
proof -
  have "Suc f \<le> 2 ^ b" using assms by simp
  then have "(of_nat (Suc f) :: rat) \<le> of_nat (2 ^ b)"
    by (simp only: of_nat_le_iff)
  then show ?thesis by (simp add: add.commute)
qed

lemma pow2_nat: "pow2 (int n) = 2 ^ n"
  by (simp add: pow2_def)

lemma pow2_neg: "pow2 (- int n) = 1 / 2 ^ n"
  by (simp add: pow2_def)

text \<open>The exponent that \<open>round64\<close> works with is the binary exponent of the magnitude.\<close>

lemma ilog2_bounds:
  assumes "0 < q"
  shows "pow2 (ilog2 q) \<le> q \<and> q < pow2 (ilog2 q + 1)"
proof (cases "1 \<le> q")
  case True
  define f where "f = nat \<lfloor>q\<rfloor>"
  define b where "b = bitlen f"
  have fq: "of_nat f \<le> q" "q < of_nat f + 1"
    using True by (simp_all add: f_def) linarith+
  have "0 < f" using True by (simp add: f_def)
  then have bb: "2 ^ (b - 1) \<le> f" "f < 2 ^ b"
    using bitlen_bounds [of f] by (simp_all add: b_def)
  then have bpos: "0 < b" by (cases b) (use \<open>0 < f\<close> in simp_all)
  have e: "ilog2 q = int (b - 1)"
    using True bpos by (simp add: ilog2_def f_def b_def)
  have "(2::rat) ^ (b - 1) \<le> of_nat f"
    using bb(1) by (rule power2_le_of_nat)
  then have "(2::rat) ^ (b - 1) \<le> q"
    using fq(1) by (rule order_trans)
  then have lower: "pow2 (ilog2 q) \<le> q"
    by (simp only: e pow2_nat)
  have "of_nat f + 1 \<le> (2::rat) ^ b"
    using bb(2) by (rule of_nat_less_power2)
  with fq(2) have "q < 2 ^ b" by (rule less_le_trans)
  moreover have "ilog2 q + 1 = int b" using e bpos by simp
  ultimately have "q < pow2 (ilog2 q + 1)"
    by (simp only: pow2_nat)
  with lower show ?thesis by simp
next
  case False
  define y where "y = 1 / q"
  define f where "f = nat \<lfloor>y\<rfloor>"
  define b where "b = bitlen f"
  have y1: "1 < y" using False assms by (simp add: y_def)
  have qy: "q = 1 / y" by (simp add: y_def)
  have fy: "of_nat f \<le> y" "y < of_nat f + 1"
    using y1 by (simp_all add: f_def) linarith+
  have "0 < f" using y1 by (simp add: f_def)
  then have bb: "2 ^ (b - 1) \<le> f" "f < 2 ^ b"
    using bitlen_bounds [of f] by (simp_all add: b_def)
  then have bpos: "0 < b" by (cases b) (use \<open>0 < f\<close> in simp_all)
  have "(2::rat) ^ (b - 1) \<le> of_nat f"
    using bb(1) by (rule power2_le_of_nat)
  then have lo: "(2::rat) ^ (b - 1) \<le> y"
    using fy(1) by (rule order_trans)
  have "of_nat f + 1 \<le> (2::rat) ^ b"
    using bb(2) by (rule of_nat_less_power2)
  with fy(2) have hi: "y < 2 ^ b" by (rule less_le_trans)
  have unfold: "ilog2 q = (if y = pow2 (int b - 1) then 1 - int b else - int b)"
    using False by (simp add: ilog2_def y_def f_def b_def Let_def)
  have pb: "pow2 (int b - 1) = 2 ^ (b - 1)"
    using bpos pow2_nat [of "b - 1"] by (simp add: of_nat_diff)
  show ?thesis
  proof (cases "y = pow2 (int b - 1)")
    case True
    then have e: "ilog2 q = - int (b - 1)" using unfold bpos by (simp add: of_nat_diff)
    have q: "q = 1 / 2 ^ (b - 1)" using True pb qy by simp
    have up: "q < pow2 (ilog2 q + 1)"
    proof (cases "b - 1")
      case 0
      then show ?thesis using q e by (simp add: pow2_def)
    next
      case (Suc k)
      then have "ilog2 q + 1 = - int k" using e by simp
      then have p: "pow2 (ilog2 q + 1) = 1 / 2 ^ k" by (simp only: pow2_neg)
      have "q = 1 / (2 * 2 ^ k)" using q Suc by simp
      also have "\<dots> < 1 / 2 ^ k" by (simp add: field_simps)
      finally show ?thesis by (simp only: p)
    qed
    have "pow2 (ilog2 q) = q" using e q by (simp only: pow2_neg)
    with up show ?thesis by simp
  next
    case False
    then have e: "ilog2 q = - int b" using unfold by simp
    have "(2::rat) ^ (b - 1) < y" using lo False pb by simp
    then have "q < 1 / 2 ^ (b - 1)"
      using y1 by (simp add: qy field_simps)
    moreover have "ilog2 q + 1 = - int (b - 1)" using e bpos by (simp add: of_nat_diff)
    ultimately have up: "q < pow2 (ilog2 q + 1)" by (simp only: pow2_neg)
    have "1 / 2 ^ b \<le> q" using hi y1 by (simp add: qy field_simps)
    then have "pow2 (ilog2 q) \<le> q" by (simp only: e pow2_neg)
    with up show ?thesis by simp
  qed
qed

text \<open>The hundredths of \<open>two_decimal_places\<close> are within half a hundredth of the magnitude.\<close>

lemma nearest_hundredth:
  assumes "0 \<le> (q::rat)"
  shows "\<bar>of_nat (nat \<lfloor>q * 100 + 1 / 2\<rfloor>) / 100 - q\<bar> \<le> 1 / 200"
proof -
  define n where "n = \<lfloor>q * 100 + 1 / 2\<rfloor>"
  have "0 \<le> n" using assms by (simp add: n_def)
  then have "of_nat (nat n) = (of_int n :: rat)" by simp
  moreover have "of_int n \<le> q * 100 + 1 / 2" "q * 100 + 1 / 2 < of_int n + 1"
    by (simp_all add: n_def) linarith+
  ultimately have "of_nat (nat n) / 100 - q \<le> 1 / 200" "- (1 / 200) \<le> of_nat (nat n) / 100 - q"
    by linarith+
  then show ?thesis unfolding n_def [symmetric] abs_le_iff by linarith
qed

subsection \<open>Evaluation on numerals\<close>

lemma floor_rat_numeral [simp]: "\<lfloor>numeral a / numeral b :: rat\<rfloor> = numeral a div numeral b"
  by (metis floor_divide_of_int_eq of_int_numeral)

lemma floor_rat_one [simp]: "\<lfloor>1 / numeral b :: rat\<rfloor> = 1 div numeral b"
  by (metis floor_divide_of_int_eq of_int_1 of_int_numeral)

lemmas eval_round64 = round64_def ilog2_def bitlen.simps pow2_def round_half_even_def Let_def

lemma round64_1e21: "round64 False 1000000000000000000000 = Finite False 1000000000000000000000"
  by (simp add: eval_round64)

lemma round64_2e21: "round64 False 2000000000000000000000 \<noteq> Finite False 1000000000000000000000"
  by (simp add: eval_round64)

lemma round64_1e22: "round64 False 10000000000000000000000 \<noteq> Finite False 1000000000000000000000"
  by (simp add: eval_round64)

lemma decimal_exponent_1e21: "decimal_exponent 1000000000000000000000 = 22"
  by (simp add: decimal_exponent_def digits.simps)

lemma candidates_1e21: "candidates 1000000000000000000000 (Suc 0) = [(22, Suc 0)]"
  using round64_1e21 round64_2e21 round64_1e22
  by (simp add: candidates_def decimal_exponent_1e21 pow10_def Let_def)

lemma shortest_1e21: "shortest 1000000000000000000000 (Suc 0) 17 = (22, Suc 0, Suc 0)"
proof -
  have fuel: "(17::nat) = Suc 16" by simp
  show ?thesis
    by (subst fuel, subst shortest.simps(2)) (simp add: candidates_1e21)
qed

lemma number_to_string_1e21: "number_to_string (Finite False 1000000000000000000000) = ''1e+21''"
  by (simp add: number_to_string_def shortest_1e21 digits.simps digit_char_def)

lemma toFixed_1e21: "toFixed (Finite False 1000000000000000000000) 2 = ''1e+21''"
  by (simp add: toFixed_def number_to_string_1e21)

lemma divide_1e21:
  "number_divide (Finite False 1000000000000000000000) (Finite False 1)
     = Finite False 1000000000000000000000"
  using round64_1e21 by simp

subsection \<open>Decimal digits and \<open>toFixed\<close>\<close>

lemma digits_less_10: "n < 10 \<Longrightarrow> digits n = [digit_char n]"
  by (simp add: digits.simps)

lemma digits_step: "10 \<le> n \<Longrightarrow> digits n = digits (n div 10) @ [digit_char (n mod 10)]"
  by (subst digits.simps) simp

lemma digits_not_empty: "digits n \<noteq> []"
  by (subst digits.simps) simp

lemma digits_step2:
  assumes "100 \<le> n"
  shows "digits n = digits (n div 100) @ [digit_char (n div 10 mod 10), digit_char (n mod 10)]"
proof -
  have "10 \<le> n" using assms by simp
  moreover have "10 \<le> n div 10" using assms by simp
  moreover have "n div 10 div 10 = n div 100" by (simp add: div_mult2_eq)
  ultimately show ?thesis by (simp add: digits_step)
qed

text \<open>
  The padding and splitting that \<open>toFixed\<close> does with two fraction digits puts the point
  before the last two digits of \<open>n\<close>.
\<close>

lemma fixed_point_two:
  "(let m = digits n; k = length m;
        m = (if k \<le> 2 then zeros (2 + 1 - k) @ m else m);
        k = (if k \<le> 2 then 2 + 1 else k)
    in take (k - 2) m @ ''.'' @ drop (k - 2) m)
   = digits (n div 100) @ ''.'' @ [digit_char (n div 10 mod 10), digit_char (n mod 10)]"
proof -
  consider "n < 10" | "10 \<le> n" "n < 100" | "100 \<le> n" by linarith
  then show ?thesis
  proof cases
    case 1
    then have "n div 100 = 0" "n div 10 = 0" by simp_all
    with 1 show ?thesis
      by (simp add: digits_less_10 zeros_def digit_char_def)
  next
    case 2
    then have "n div 100 = 0" "n div 10 < 10" by simp_all
    with 2 show ?thesis
      by (simp add: digits_step digits_less_10 zeros_def digit_char_def)
  next
    case 3
    then have "2 < length (digits n)" "length (digits n) - 2 = length (digits (n div 100))"
      by (simp_all add: digits_step2 [of n] digits_not_empty)
    with 3 show ?thesis by (simp add: digits_step2 [of n])
  qed
qed

lemma toFixed_two_decimal_places:
  assumes "q < 10 ^ 21"
  shows "toFixed (Finite sg q) 2 = two_decimal_places sg q"
  using assms fixed_point_two [of "nat \<lfloor>q * 100 + 1 / 2\<rfloor>"]
  by (simp add: toFixed_def two_decimal_places_def Let_def)

lemma divide_NaN_right: "number_divide x NaN = NaN"
  by (cases x) simp_all

lemma toFixed_NaN: "toFixed NaN f = ''NaN''"
  by (simp add: toFixed_def number_to_string_def)

section \<open>The effects of the handler, case by case\<close>

lemma effects_rejected_first:
  "effects_of p (Rejected e) fetch2 =
     [Request (ticker_url (crypto1_value p)), Settled (Rejected e),
      SetTextContent ''Error fetching data.'', ConsoleError e]"
  by (simp add: effects_of_def click_handler_def try_block_def)

lemma effects_rejected_second:
  "effects_of p (Fulfilled r1) (Rejected e) =
     [Request (ticker_url (crypto1_value p)), Settled (Fulfilled r1),
      Request (ticker_url (crypto2_value p)), Settled (Rejected e),
      SetTextContent ''Error fetching data.'', ConsoleError e]"
  by (simp add: effects_of_def click_handler_def try_block_def)

lemma effects_fulfilled:
  "effects_of p (Fulfilled r1) (Fulfilled r2) =
     [Request (ticker_url (crypto1_value p)), Settled (Fulfilled r1),
      Request (ticker_url (crypto2_value p)), Settled (Fulfilled r2)]
     @ (case json_body r1 of
          Inl err \<Rightarrow> [SetTextContent ''Error fetching data.'', ConsoleError err]
        | Inr data1 \<Rightarrow>
            (case json_body r2 of
               Inl err \<Rightarrow> [SetTextContent ''Error fetching data.'', ConsoleError err]
             | Inr data2 \<Rightarrow>
                 (case marketCapRatio data1 data2 of
                    Inl err \<Rightarrow> [SetTextContent ''Error fetching data.'', ConsoleError err]
                  | Inr ratio \<Rightarrow>
                      [SetTextContent
                         (''1 '' @ crypto1_value p @ '' = '' @ ratio @ '' '' @ crypto2_value p)])))"
  by (simp add: effects_of_def click_handler_def try_block_def Let_def split: sum.splits)

lemma display_rejected_first: "display p (Rejected e) fetch2 = ''Error fetching data.''"
  by (simp add: display_def page_after_def effects_rejected_first)

lemma display_rejected_second: "display p (Fulfilled r1) (Rejected e) = ''Error fetching data.''"
  by (simp add: display_def page_after_def effects_rejected_second)

lemma display_fulfilled:
  "display p (Fulfilled r1) (Fulfilled r2) =
     (case json_body r1 of
        Inl err \<Rightarrow> ''Error fetching data.''
      | Inr data1 \<Rightarrow>
          (case json_body r2 of
             Inl err \<Rightarrow> ''Error fetching data.''
           | Inr data2 \<Rightarrow>
               (case marketCapRatio data1 data2 of
                  Inl err \<Rightarrow> ''Error fetching data.''
                | Inr ratio \<Rightarrow>
                    ''1 '' @ crypto1_value p @ '' = '' @ ratio @ '' '' @ crypto2_value p)))"
  by (simp add: display_def page_after_def effects_fulfilled split: sum.splits)

lemma display_ratio:
  assumes "body r1 = Some data1" "body r2 = Some data2"
    and "quoteVolume data1 = Inr v1" "quoteVolume data2 = Inr v2"
    and "to_number v1 = Inr n1" "to_number v2 = Inr n2"
  shows "display p (Fulfilled r1) (Fulfilled r2) =
           ''1 '' @ crypto1_value p @ '' = '' @ toFixed (number_divide n1 n2) 2
           @ '' '' @ crypto2_value p"
  using assms by (simp add: display_fulfilled json_body_def marketCapRatio_def)

lemma json_body_status: "json_body (r\<lparr>status := s\<rparr>) = json_body r"
  by (simp add: json_body_def)

lemma writes_rejected_first:
  "[s. SetTextContent s \<leftarrow> effects_of p (Rejected e) fetch2] = [''Error fetching data.'']"
  by (simp add: effects_rejected_first)

lemma writes_rejected_second:
  "[s. SetTextContent s \<leftarrow> effects_of p (Fulfilled r1) (Rejected e)] = [''Error fetching data.'']"
  by (simp add: effects_rejected_second)

lemma writes_fulfilled:
  "[s. SetTextContent s \<leftarrow> effects_of p (Fulfilled r1) (Fulfilled r2)]
     = [display p (Fulfilled r1) (Fulfilled r2)]"
  by (simp add: effects_fulfilled display_fulfilled split: sum.splits)

lemma writes_display: "[s. SetTextContent s \<leftarrow> effects_of p fetch1 fetch2] = [display p fetch1 fetch2]"
proof (cases fetch1)
  case (Rejected e)
  then show ?thesis by (simp only: writes_rejected_first display_rejected_first)
next
  case f1: (Fulfilled r1)
  show ?thesis
  proof (cases fetch2)
    case (Rejected e)
    with f1 show ?thesis by (simp only: writes_rejected_second display_rejected_second)
  next
    case (Fulfilled r2)
    with f1 show ?thesis by (simp only: writes_fulfilled)
  qed
qed

lemma page_after_display:
  "page_after p fetch1 fetch2 = p\<lparr>crypto_data_text := display p fetch1 fetch2\<rparr>"
proof -
  have step: "fold apply_event evs q = q\<lparr>crypto_data_text := crypto_data_text (fold apply_event evs q)\<rparr>"
    for evs q
  proof (induction evs arbitrary: q)
    case Nil
    show ?case by simp
  next
    case (Cons ev evs)
    show ?case
    proof (cases ev)
      case (SetTextContent s)
      have "fold apply_event (ev # evs) q = fold apply_event evs (q\<lparr>crypto_data_text := s\<rparr>)"
        using SetTextContent by simp
      also have "\<dots> = (q\<lparr>crypto_data_text := s\<rparr>)\<lparr>crypto_data_text :=
          crypto_data_text (fold apply_event evs (q\<lparr>crypto_data_text := s\<rparr>))\<rparr>"
        by (rule Cons.IH)
      finally show ?thesis using SetTextContent by simp
    qed (use Cons.IH [of q] in simp_all)
  qed
  show ?thesis
    unfolding display_def page_after_def by (rule step)
qed

lemma console_rejected_first:
  "[x. ConsoleError x \<leftarrow> effects_of p (Rejected e) fetch2] = [e]"
  by (simp add: effects_rejected_first)

lemma console_rejected_second:
  "[x. ConsoleError x \<leftarrow> effects_of p (Fulfilled r1) (Rejected e)] = [e]"
  by (simp add: effects_rejected_second)

lemma outcome_fulfilled:
  "(\<exists>ratio. display p (Fulfilled r1) (Fulfilled r2)
        = ''1 '' @ crypto1_value p @ '' = '' @ ratio @ '' '' @ crypto2_value p
      \<and> [x. ConsoleError x \<leftarrow> effects_of p (Fulfilled r1) (Fulfilled r2)] = [])
   \<or> (display p (Fulfilled r1) (Fulfilled r2) = ''Error fetching data.''
      \<and> (\<exists>err. [x. ConsoleError x \<leftarrow> effects_of p (Fulfilled r1) (Fulfilled r2)] = [err]))"
  by (simp add: display_fulfilled effects_fulfilled split: sum.splits)

lemma outcome:
  "(\<exists>ratio. display p fetch1 fetch2
        = ''1 '' @ crypto1_value p @ '' = '' @ ratio @ '' '' @ crypto2_value p
      \<and> [x. ConsoleError x \<leftarrow> effects_of p fetch1 fetch2] = [])
   \<or> (display p fetch1 fetch2 = ''Error fetching data.''
      \<and> (\<exists>err. [x. ConsoleError x \<leftarrow> effects_of p fetch1 fetch2] = [err]))"
proof (cases fetch1)
  case (Rejected e)
  then show ?thesis by (simp add: display_rejected_first console_rejected_first)
next
  case f1: (Fulfilled r1)
  show ?thesis
  proof (cases fetch2)
    case (Rejected e)
    with f1 show ?thesis by (simp add: display_rejected_second console_rejected_second)
  next
    case (Fulfilled r2)
    with f1 show ?thesis by (simp only: outcome_fulfilled)
  qed
qed

lemma requests_rejected_first:
  "[u. Request u \<leftarrow> effects_of p (Rejected e) fetch2] = [ticker_url (crypto1_value p)]"
  by (simp add: effects_rejected_first)

lemma requests_fulfilled_first:
  "[u. Request u \<leftarrow> effects_of p (Fulfilled r1) fetch2]
     = [ticker_url (crypto1_value p), ticker_url (crypto2_value p)]"
  by (cases fetch2) (simp_all add: effects_rejected_second effects_fulfilled split: sum.splits)

lemma ticker_url_eq: "ticker_url a = ticker_url b \<longleftrightarrow> a = b"
  by (simp add: ticker_url_def)

lemma completion: "snd (click_handler p fetch1 fetch2) = Inr ()"
  by (simp add: click_handler_def Let_def split: prod.splits sum.splits)

lemma effects_inputs:
  assumes "crypto1_value p = crypto1_value p'" "crypto2_value p = crypto2_value p'"
  shows "effects_of p fetch1 fetch2 = effects_of p' fetch1 fetch2"
  using assms by (simp add: effects_of_def click_handler_def)

section \<open>The claims\<close>

subsection \<open>C1: the ratio on the display\<close>

text \<open>
  C1, as amended.  When both fetches are fulfilled, both parsed responses are objects whose
  \<open>quoteVolume\<close> is a number, \<open>vA\<close> and \<open>vB\<close>, and the quotient \<open>vA / vB\<close> computed in
  double precision is finite with a magnitude below \<open>10 ^ 21\<close>, the handler leaves on the
  display exactly \<open>1 A = r B\<close>, where \<open>A\<close> and \<open>B\<close> are the two input strings and \<open>r\<close> is
  the quotient with exactly two decimal places.  (A finite quotient means \<open>vB\<close> is not
  zero.)  With \<open>A = BTCUSDT\<close>, \<open>vA = 1000\<close>, \<open>B = ETHUSDT\<close>, \<open>vB = 500\<close> the display is
  \<open>1 BTCUSDT = 2.00 ETHUSDT\<close>: this is the witness below.
\<close>

theorem ratio_display:
  assumes "body response1 = Some (JObject props1)"
    and "map_of props1 ''quoteVolume'' = Some (JNumber vA)"
    and "body response2 = Some (JObject props2)"
    and "map_of props2 ''quoteVolume'' = Some (JNumber vB)"
    and "number_divide vA vB = Finite sg q"
    and "q < 10 ^ 21"
  shows "display p (Fulfilled response1) (Fulfilled response2) =
           ''1 '' @ crypto1_value p @ '' = '' @ two_decimal_places sg q @ '' '' @ crypto2_value p"
proof -
  have "quoteVolume (JObject props1) = Inr (Some (JNumber vA))"
    "quoteVolume (JObject props2) = Inr (Some (JNumber vB))"
    using assms(2,4) by (simp_all add: quoteVolume_def)
  moreover have "to_number (Some (JNumber vA)) = Inr vA" "to_number (Some (JNumber vB)) = Inr vB"
    by (simp_all add: to_number_def)
  ultimately have "display p (Fulfilled response1) (Fulfilled response2) =
      ''1 '' @ crypto1_value p @ '' = '' @ toFixed (number_divide vA vB) 2 @ '' '' @ crypto2_value p"
    using assms(1,3) by (rule display_ratio [rotated 2])
  then show ?thesis
    using assms(5,6) by (simp add: toFixed_two_decimal_places)
qed

theorem ratio_display_witness:
  "number_divide (Finite False 1000) (Finite False 500) = Finite False 2 \<and>
   display \<lparr>crypto1_value = ''BTCUSDT'', crypto2_value = ''ETHUSDT'', crypto_data_text = ''''\<rparr>
     (Fulfilled \<lparr>status = 200, body = Some (JObject [(''quoteVolume'', JNumber (Finite False 1000))])\<rparr>)
     (Fulfilled \<lparr>status = 200, body = Some (JObject [(''quoteVolume'', JNumber (Finite False 500))])\<rparr>)
   = ''1 BTCUSDT = 2.00 ETHUSDT''"
proof -
  have q: "number_divide (Finite False 1000) (Finite False 500) = Finite False 2"
    by (simp add: eval_round64)
  have "two_decimal_places False 2 = ''2.00''"
    by (simp add: two_decimal_places_def digits.simps digit_char_def)
  with q show ?thesis
    using ratio_display [of "\<lparr>status = 200, body = Some (JObject [(''quoteVolume'', JNumber (Finite False 1000))])\<rparr>"
        "[(''quoteVolume'', JNumber (Finite False 1000))]" "Finite False 1000"
        "\<lparr>status = 200, body = Some (JObject [(''quoteVolume'', JNumber (Finite False 500))])\<rparr>"
        "[(''quoteVolume'', JNumber (Finite False 500))]" "Finite False 500" False 2
        "\<lparr>crypto1_value = ''BTCUSDT'', crypto2_value = ''ETHUSDT'', crypto_data_text = ''''\<rparr>"]
    by simp
qed

text \<open>
  C1 as stated fails: with \<open>vA = 10 ^ 21\<close> and \<open>vB = 1\<close>, both numbers and \<open>vB\<close> not zero,
  \<open>toFixed\<close> prints the quotient in exponent notation, where two decimal places would be
  \<open>1000000000000000000000.00\<close>.
\<close>

theorem ratio_display_counterexample:
  "display \<lparr>crypto1_value = ''BTCUSDT'', crypto2_value = ''ETHUSDT'', crypto_data_text = ''''\<rparr>
     (Fulfilled \<lparr>status = 200,
        body = Some (JObject [(''quoteVolume'', JNumber (Finite False 1000000000000000000000))])\<rparr>)
     (Fulfilled \<lparr>status = 200, body = Some (JObject [(''quoteVolume'', JNumber (Finite False 1))])\<rparr>)
   = ''1 BTCUSDT = 1e+21 ETHUSDT''
   \<and> two_decimal_places False 1000000000000000000000 = ''1000000000000000000000.00''"
proof -
  have "two_decimal_places False 1000000000000000000000 = ''1000000000000000000000.00''"
    by (simp add: two_decimal_places_def digits.simps digit_char_def)
  then show ?thesis
    using divide_1e21 toFixed_1e21
    by (simp add: display_fulfilled json_body_def marketCapRatio_def quoteVolume_def to_number_def)
qed

subsection \<open>C2: a non-success status\<close>

text \<open>
  C2, as amended.  The handler never inspects the status of a response: whatever status
  either response carries, the display is the same.  The operation aborts when a network
  call fails: in every invocation in which either fetch is rejected, the display is set
  to exactly \<open>Error fetching data.\<close>, and that is the only text written, so no partial
  numeric output appears.
\<close>

theorem status_not_inspected:
  "display p (Fulfilled (r1\<lparr>status := s1\<rparr>)) (Fulfilled (r2\<lparr>status := s2\<rparr>))
     = display p (Fulfilled r1) (Fulfilled r2)
   \<and> ((\<exists>e. fetch1 = Rejected e) \<or> (\<exists>e. fetch2 = Rejected e) \<longrightarrow>
        display p fetch1 fetch2 = ''Error fetching data.''
        \<and> [s. SetTextContent s \<leftarrow> effects_of p fetch1 fetch2] = [''Error fetching data.''])"
proof -
  have "display p (Fulfilled (r1\<lparr>status := s1\<rparr>)) (Fulfilled (r2\<lparr>status := s2\<rparr>))
     = display p (Fulfilled r1) (Fulfilled r2)"
    by (simp add: display_fulfilled json_body_status cong: sum.case_cong)
  moreover have "display p fetch1 fetch2 = ''Error fetching data.''"
    if "(\<exists>e. fetch1 = Rejected e) \<or> (\<exists>e. fetch2 = Rejected e)"
    using that by (cases fetch1) (auto simp: display_rejected_first display_rejected_second)
  ultimately show ?thesis by (simp add: writes_display)
qed

theorem status_not_inspected_witness:
  "display \<lparr>crypto1_value = ''BTCUSDT'', crypto2_value = ''ETHUSDT'', crypto_data_text = ''''\<rparr>
     (Fulfilled \<lparr>status = 200, body = Some JNull\<rparr>) (Rejected NetworkError)
   = ''Error fetching data.''"
  using status_not_inspected [of
      "\<lparr>crypto1_value = ''BTCUSDT'', crypto2_value = ''ETHUSDT'', crypto_data_text = ''''\<rparr>"
      _ _ _ _ "Fulfilled \<lparr>status = 200, body = Some JNull\<rparr>" "Rejected NetworkError"]
  by simp

text \<open>
  C2 as stated fails: the first response has status 500 and a JSON body that reports the
  error; the fetch is fulfilled all the same, the body parses, its \<open>quoteVolume\<close> is
  \<open>undefined\<close>, and the display shows a ratio that is not a number.
\<close>

theorem status_counterexample:
  "display \<lparr>crypto1_value = ''BTCUSDT'', crypto2_value = ''ETHUSDT'', crypto_data_text = ''''\<rparr>
     (Fulfilled \<lparr>status = 500, body = Some (JObject [(''code'', JNumber (Finite True 1000)),
                                                      (''msg'', JString ''Internal error'')])\<rparr>)
     (Fulfilled \<lparr>status = 200, body = Some (JObject [(''quoteVolume'', JNumber (Finite False 500))])\<rparr>)
   = ''1 BTCUSDT = NaN ETHUSDT''"
  by (simp add: display_fulfilled json_body_def marketCapRatio_def quoteVolume_def to_number_def
      toFixed_def number_to_string_def)

subsection \<open>C3: a volume that is absent or not a number\<close>

text \<open>
  C3, as amended.  In every invocation in which both fetches are fulfilled, both bodies
  parse to values other than \<open>null\<close> whose \<open>quoteVolume\<close> coerces to a Number without
  throwing, and on either side the field is absent or coerces to not-a-number, the
  display is set to \<open>1 A = NaN B\<close> and not to the generic error string.
\<close>

theorem missing_volume_displays_NaN:
  assumes "body r1 = Some data1" "body r2 = Some data2"
    and "quoteVolume data1 = Inr v1" "quoteVolume data2 = Inr v2"
    and "to_number v1 = Inr n1" "to_number v2 = Inr n2"
    and "v1 = None \<or> v2 = None \<or> n1 = NaN \<or> n2 = NaN"
  shows "display p (Fulfilled r1) (Fulfilled r2)
           = ''1 '' @ crypto1_value p @ '' = NaN '' @ crypto2_value p
         \<and> display p (Fulfilled r1) (Fulfilled r2) \<noteq> ''Error fetching data.''"
proof -
  have "n1 = NaN \<or> n2 = NaN"
    using assms(5,6,7) by (auto simp: to_number_def)
  then have "number_divide n1 n2 = NaN"
    by (auto simp: divide_NaN_right)
  then have "display p (Fulfilled r1) (Fulfilled r2)
      = ''1 '' @ crypto1_value p @ '' = '' @ ''NaN'' @ '' '' @ crypto2_value p"
    using display_ratio [OF assms(1-6), of p] by (simp add: toFixed_NaN)
  then show ?thesis by simp
qed

theorem missing_volume_displays_NaN_witness:
  "display \<lparr>crypto1_value = ''BTCUSDT'', crypto2_value = ''ETHUSDT'', crypto_data_text = ''''\<rparr>
     (Fulfilled \<lparr>status = 200, body = Some (JObject [(''quoteVolume'', JString ''n/a'')])\<rparr>)
     (Fulfilled \<lparr>status = 200, body = Some (JArray [])\<rparr>)
   = ''1 BTCUSDT = NaN ETHUSDT''"
  using missing_volume_displays_NaN [of
      "\<lparr>status = 200, body = Some (JObject [(''quoteVolume'', JString ''n/a'')])\<rparr>"
      "JObject [(''quoteVolume'', JString ''n/a'')]"
      "\<lparr>status = 200, body = Some (JArray [])\<rparr>" "JArray []"
      "Some (JString ''n/a'')" None "string_to_number ''n/a''" NaN
      "\<lparr>crypto1_value = ''BTCUSDT'', crypto2_value = ''ETHUSDT'', crypto_data_text = ''''\<rparr>"]
  by (simp add: quoteVolume_def to_number_def)

text \<open>
  C3 as stated fails: the first parsed response has no \<open>quoteVolume\<close> field, and the
  display is a ratio output, not the generic error string.
\<close>

theorem missing_volume_counterexample:
  "display \<lparr>crypto1_value = ''BTCUSDT'', crypto2_value = ''ETHUSDT'', crypto_data_text = ''''\<rparr>
     (Fulfilled \<lparr>status = 200, body = Some (JObject [(''symbol'', JString ''BTCUSDT'')])\<rparr>)
     (Fulfilled \<lparr>status = 200, body = Some (JObject [(''quoteVolume'', JNumber (Finite False 500))])\<rparr>)
   = ''1 BTCUSDT = NaN ETHUSDT''"
  by (simp add: display_fulfilled json_body_def marketCapRatio_def quoteVolume_def to_number_def
      toFixed_def number_to_string_def)

subsection \<open>C4: a second volume of zero\<close>

text \<open>
  C4.  When the second symbol's \<open>quoteVolume\<close> is zero (of either sign) and the first
  one's coerces to any Number, the division is not specially handled: the quotient is
  not finite (an infinity or not-a-number), its text \<open>Infinity\<close>, \<open>-Infinity\<close> or \<open>NaN\<close>
  goes into the string written to the display, and the generic error message is not
  shown.
\<close>

theorem zero_volume_not_handled:
  assumes "body r1 = Some data1" "body r2 = Some data2"
    and "quoteVolume data1 = Inr v1" "quoteVolume data2 = Inr v2"
    and "to_number v1 = Inr n1" "to_number v2 = Inr (Finite sb 0)"
  shows "number_divide n1 (Finite sb 0) \<in> {NaN, Infinity False, Infinity True}
         \<and> display p (Fulfilled r1) (Fulfilled r2)
             = ''1 '' @ crypto1_value p @ '' = ''
               @ number_to_string (number_divide n1 (Finite sb 0)) @ '' '' @ crypto2_value p
         \<and> number_to_string (number_divide n1 (Finite sb 0)) \<in> {''NaN'', ''Infinity'', ''-Infinity''}
         \<and> display p (Fulfilled r1) (Fulfilled r2) \<noteq> ''Error fetching data.''"
proof -
  have nonfinite: "number_divide n1 (Finite sb 0) \<in> {NaN, Infinity False, Infinity True}"
    by (cases n1) auto
  then have fixed: "toFixed (number_divide n1 (Finite sb 0)) 2
      = number_to_string (number_divide n1 (Finite sb 0))"
    by (auto simp: toFixed_def)
  have shown: "display p (Fulfilled r1) (Fulfilled r2)
      = ''1 '' @ crypto1_value p @ '' = ''
        @ number_to_string (number_divide n1 (Finite sb 0)) @ '' '' @ crypto2_value p"
    using display_ratio [OF assms, of p] by (simp only: fixed)
  have printed: "number_to_string (number_divide n1 (Finite sb 0)) \<in> {''NaN'', ''Infinity'', ''-Infinity''}"
    using nonfinite by (auto simp: number_to_string_def)
  from shown have "display p (Fulfilled r1) (Fulfilled r2) \<noteq> ''Error fetching data.''"
    by simp
  with nonfinite shown printed show ?thesis by blast
qed

theorem zero_volume_not_handled_witness:
  "display \<lparr>crypto1_value = ''BTCUSDT'', crypto2_value = ''ETHUSDT'', crypto_data_text = ''''\<rparr>
     (Fulfilled \<lparr>status = 200, body = Some (JObject [(''quoteVolume'', JNumber (Finite False 1000))])\<rparr>)
     (Fulfilled \<lparr>status = 200, body = Some (JObject [(''quoteVolume'', JNumber (Finite False 0))])\<rparr>)
   = ''1 BTCUSDT = Infinity ETHUSDT''"
  using zero_volume_not_handled [of
      "\<lparr>status = 200, body = Some (JObject [(''quoteVolume'', JNumber (Finite False 1000))])\<rparr>"
      "JObject [(''quoteVolume'', JNumber (Finite False 1000))]"
      "\<lparr>status = 200, body = Some (JObject [(''quoteVolume'', JNumber (Finite False 0))])\<rparr>"
      "JObject [(''quoteVolume'', JNumber (Finite False 0))]"
      "Some (JNumber (Finite False 1000))" "Some (JNumber (Finite False 0))"
      "Finite False 1000" False
      "\<lparr>crypto1_value = ''BTCUSDT'', crypto2_value = ''ETHUSDT'', crypto_data_text = ''''\<rparr>"]
  by (simp add: quoteVolume_def to_number_def number_to_string_def)

subsection \<open>C5: a body that is not JSON\<close>

text \<open>
  C5.  In every invocation in which either response body is not valid JSON, the display
  is set to exactly \<open>Error fetching data.\<close>.
\<close>

theorem invalid_json_shows_error:
  assumes "(\<exists>r. fetch1 = Fulfilled r \<and> body r = None) \<or> (\<exists>r. fetch2 = Fulfilled r \<and> body r = None)"
  shows "display p fetch1 fetch2 = ''Error fetching data.''"
proof (cases fetch1)
  case (Rejected e)
  then show ?thesis by (simp add: display_rejected_first)
next
  case f1: (Fulfilled r1)
  show ?thesis
  proof (cases fetch2)
    case (Rejected e)
    with f1 show ?thesis by (simp add: display_rejected_second)
  next
    case (Fulfilled r2)
    with f1 assms have "body r1 = None \<or> body r2 = None" by auto
    with f1 Fulfilled show ?thesis
      by (auto simp: display_fulfilled json_body_def split: sum.splits option.splits)
  qed
qed

theorem invalid_json_shows_error_witness:
  "display \<lparr>crypto1_value = ''BTCUSDT'', crypto2_value = ''ETHUSDT'', crypto_data_text = ''''\<rparr>
     (Fulfilled \<lparr>status = 200, body = Some (JObject [(''quoteVolume'', JNumber (Finite False 1000))])\<rparr>)
     (Fulfilled \<lparr>status = 200, body = None\<rparr>)
   = ''Error fetching data.''"
  using invalid_json_shows_error [of
      "Fulfilled \<lparr>status = 200, body = Some (JObject [(''quoteVolume'', JNumber (Finite False 1000))])\<rparr>"
      "Fulfilled \<lparr>status = 200, body = None\<rparr>"
      "\<lparr>crypto1_value = ''BTCUSDT'', crypto2_value = ''ETHUSDT'', crypto_data_text = ''''\<rparr>"]
  by simp

subsection \<open>C6: one mutation of the display\<close>

text \<open>
  C6.  Every invocation assigns the display element's text exactly once; the page
  afterwards is the page before with that text and nothing else changed; and either the
  text is the success string and nothing is recorded on the console, or it is the error
  string and one record is.
\<close>

theorem one_display_mutation:
  "[s. SetTextContent s \<leftarrow> effects_of p fetch1 fetch2] = [display p fetch1 fetch2]
   \<and> page_after p fetch1 fetch2 = p\<lparr>crypto_data_text := display p fetch1 fetch2\<rparr>
   \<and> ((\<exists>ratio. display p fetch1 fetch2
            = ''1 '' @ crypto1_value p @ '' = '' @ ratio @ '' '' @ crypto2_value p
          \<and> [x. ConsoleError x \<leftarrow> effects_of p fetch1 fetch2] = [])
       \<or> (display p fetch1 fetch2 = ''Error fetching data.''
          \<and> (\<exists>err. [x. ConsoleError x \<leftarrow> effects_of p fetch1 fetch2] = [err])))"
  using writes_display [of p fetch1 fetch2] page_after_display [of p fetch1 fetch2]
    outcome [of p fetch1 fetch2]
  by (intro conjI)

theorem one_display_mutation_witness:
  "[s. SetTextContent s \<leftarrow> effects_of
        \<lparr>crypto1_value = ''BTCUSDT'', crypto2_value = ''ETHUSDT'', crypto_data_text = ''old''\<rparr>
        (Rejected NetworkError) (Rejected NetworkError)]
     = [''Error fetching data.'']
   \<and> page_after
        \<lparr>crypto1_value = ''BTCUSDT'', crypto2_value = ''ETHUSDT'', crypto_data_text = ''old''\<rparr>
        (Rejected NetworkError) (Rejected NetworkError)
     = \<lparr>crypto1_value = ''BTCUSDT'', crypto2_value = ''ETHUSDT'',
        crypto_data_text = ''Error fetching data.''\<rparr>"
  using one_display_mutation [of
      "\<lparr>crypto1_value = ''BTCUSDT'', crypto2_value = ''ETHUSDT'', crypto_data_text = ''old''\<rparr>"
      "Rejected NetworkError" "Rejected NetworkError"]
  by (simp add: display_rejected_first)

subsection \<open>C7: no retries\<close>

text \<open>
  C7.  Whether the invocation succeeds or fails, the requests it issues are the one for
  the first symbol alone, or that one followed by the one for the second symbol: no URL
  is requested more often than its symbol occurs in the two input fields.  No exception
  leaves the handler: the failure stays within the invocation.
\<close>

theorem no_retries:
  "[u. Request u \<leftarrow> effects_of p fetch1 fetch2]
     \<in> {[ticker_url (crypto1_value p)],
         [ticker_url (crypto1_value p), ticker_url (crypto2_value p)]}
   \<and> (\<forall>c. count_list [u. Request u \<leftarrow> effects_of p fetch1 fetch2] (ticker_url c)
            \<le> count_list [crypto1_value p, crypto2_value p] c)
   \<and> snd (click_handler p fetch1 fetch2) = Inr ()"
proof (cases fetch1)
  case (Rejected e)
  then show ?thesis
    by (simp add: requests_rejected_first ticker_url_eq completion)
next
  case (Fulfilled r1)
  then show ?thesis
    by (simp add: requests_fulfilled_first ticker_url_eq completion)
qed

theorem no_retries_witness:
  "count_list [u. Request u \<leftarrow> effects_of
        \<lparr>crypto1_value = ''BTCUSDT'', crypto2_value = ''ETHUSDT'', crypto_data_text = ''''\<rparr>
        (Fulfilled \<lparr>status = 503, body = None\<rparr>) (Rejected NetworkError)]
     (ticker_url ''ETHUSDT'') \<le> 1
   \<and> snd (click_handler
        \<lparr>crypto1_value = ''BTCUSDT'', crypto2_value = ''ETHUSDT'', crypto_data_text = ''''\<rparr>
        (Fulfilled \<lparr>status = 503, body = None\<rparr>) (Rejected NetworkError)) = Inr ()"
  using no_retries [of
      "\<lparr>crypto1_value = ''BTCUSDT'', crypto2_value = ''ETHUSDT'', crypto_data_text = ''''\<rparr>"
      "Fulfilled \<lparr>status = 503, body = None\<rparr>" "Rejected NetworkError"]
  by (auto dest: spec [of _ "''ETHUSDT''"])

subsection \<open>C8: the two requests in sequence\<close>

text \<open>
  C8.  The effects of every invocation begin with the request for the first symbol and
  the settling of that fetch.  When it is rejected, no request follows at all; when it
  is fulfilled, the request for the second symbol and its settling follow, and no
  further request.
\<close>

theorem requests_sequential:
  "\<exists>rest. effects_of p fetch1 fetch2 =
      (case fetch1 of
         Rejected e \<Rightarrow> [Request (ticker_url (crypto1_value p)), Settled fetch1]
       | Fulfilled r \<Rightarrow> [Request (ticker_url (crypto1_value p)), Settled fetch1,
                         Request (ticker_url (crypto2_value p)), Settled fetch2]) @ rest
      \<and> [u. Request u \<leftarrow> rest] = []"
proof (cases fetch1)
  case (Rejected e)
  then show ?thesis by (simp add: effects_rejected_first)
next
  case f1: (Fulfilled r1)
  show ?thesis
  proof (cases fetch2)
    case (Rejected e)
    with f1 show ?thesis by (simp add: effects_rejected_second)
  next
    case (Fulfilled r2)
    with f1 show ?thesis by (simp add: effects_fulfilled split: sum.splits)
  qed
qed

theorem requests_sequential_witness:
  "\<exists>rest. effects_of
       \<lparr>crypto1_value = ''BTCUSDT'', crypto2_value = ''ETHUSDT'', crypto_data_text = ''''\<rparr>
       (Rejected NetworkError) (Fulfilled \<lparr>status = 200, body = None\<rparr>)
     = [Request (ticker_url ''BTCUSDT''), Settled (Rejected NetworkError)] @ rest
     \<and> [u. Request u \<leftarrow> rest] = []"
  using requests_sequential [of
      "\<lparr>crypto1_value = ''BTCUSDT'', crypto2_value = ''ETHUSDT'', crypto_data_text = ''''\<rparr>"
      "Rejected NetworkError" "Fulfilled \<lparr>status = 200, body = None\<rparr>"]
  by simp

subsection \<open>C9: no validation of the inputs\<close>

text \<open>
  C9.  For every pair of input strings, the empty string included, the first effect of
  the handler is the request whose URL is the endpoint followed by the first input as it
  is; and once that fetch is fulfilled the second request is issued with the second
  input as it is.  Which requests are issued depends on the first fetch only, never on
  the inputs: no input is rejected locally.
\<close>

theorem no_input_validation:
  "hd (effects_of p fetch1 fetch2)
     = Request (''https://api.binance.com/api/v3/ticker/24hr?symbol='' @ crypto1_value p)
   \<and> [u. Request u \<leftarrow> effects_of p fetch1 fetch2] =
       (case fetch1 of
          Rejected e \<Rightarrow> [''https://api.binance.com/api/v3/ticker/24hr?symbol='' @ crypto1_value p]
        | Fulfilled r \<Rightarrow> [''https://api.binance.com/api/v3/ticker/24hr?symbol='' @ crypto1_value p,
                          ''https://api.binance.com/api/v3/ticker/24hr?symbol='' @ crypto2_value p])"
proof (cases fetch1)
  case (Rejected e)
  then show ?thesis
    by (simp add: requests_rejected_first effects_rejected_first ticker_url_def)
next
  case f1: (Fulfilled r1)
  have "hd (effects_of p (Fulfilled r1) fetch2) = Request (ticker_url (crypto1_value p))"
    by (cases fetch2) (simp_all add: effects_rejected_second effects_fulfilled)
  with f1 show ?thesis
    by (simp add: requests_fulfilled_first ticker_url_def)
qed

theorem no_input_validation_witness:
  "[u. Request u \<leftarrow> effects_of
        \<lparr>crypto1_value = '''', crypto2_value = '''', crypto_data_text = ''''\<rparr>
        (Fulfilled \<lparr>status = 400, body = Some (JObject [(''code'', JNumber (Finite True 1105))])\<rparr>)
        (Fulfilled \<lparr>status = 400, body = Some (JObject [(''code'', JNumber (Finite True 1105))])\<rparr>)]
     = [''https://api.binance.com/api/v3/ticker/24hr?symbol='',
        ''https://api.binance.com/api/v3/ticker/24hr?symbol='']"
  using no_input_validation [of
      "\<lparr>crypto1_value = '''', crypto2_value = '''', crypto_data_text = ''''\<rparr>"
      "Fulfilled \<lparr>status = 400, body = Some (JObject [(''code'', JNumber (Finite True 1105))])\<rparr>"
      "Fulfilled \<lparr>status = 400, body = Some (JObject [(''code'', JNumber (Finite True 1105))])\<rparr>"]
  by simp

subsection \<open>C10: determinism\<close>

text \<open>
  C10.  Two invocations with the same values in the two input fields and the same
  outcomes of the two requests have the same effects and write the same string to the
  display, whatever else differs between the two pages (the text the display held
  before).
\<close>

theorem handler_deterministic:
  assumes "crypto1_value p = crypto1_value p'" "crypto2_value p = crypto2_value p'"
  shows "effects_of p fetch1 fetch2 = effects_of p' fetch1 fetch2
         \<and> display p fetch1 fetch2 = display p' fetch1 fetch2"
proof -
  have same: "effects_of p fetch1 fetch2 = effects_of p' fetch1 fetch2"
    using assms by (rule effects_inputs)
  have "[display p fetch1 fetch2] = [s. SetTextContent s \<leftarrow> effects_of p fetch1 fetch2]"
    by (simp only: writes_display)
  also have "\<dots> = [s. SetTextContent s \<leftarrow> effects_of p' fetch1 fetch2]"
    by (simp only: same)
  also have "\<dots> = [display p' fetch1 fetch2]"
    by (simp only: writes_display)
  finally show ?thesis using same by simp
qed

theorem handler_deterministic_witness:
  "display \<lparr>crypto1_value = ''BTCUSDT'', crypto2_value = ''ETHUSDT'', crypto_data_text = ''''\<rparr>
     (Fulfilled \<lparr>status = 200, body = Some (JObject [(''quoteVolume'', JString ''1000'')])\<rparr>)
     (Fulfilled \<lparr>status = 200, body = Some (JObject [(''quoteVolume'', JString ''500'')])\<rparr>)
   = display \<lparr>crypto1_value = ''BTCUSDT'', crypto2_value = ''ETHUSDT'',
        crypto_data_text = ''Error fetching data.''\<rparr>
     (Fulfilled \<lparr>status = 200, body = Some (JObject [(''quoteVolume'', JString ''1000'')])\<rparr>)
     (Fulfilled \<lparr>status = 200, body = Some (JObject [(''quoteVolume'', JString ''500'')])\<rparr>)"
  using handler_deterministic [of
      "\<lparr>crypto1_value = ''BTCUSDT'', crypto2_value = ''ETHUSDT'', crypto_data_text = ''''\<rparr>"
      "\<lparr>crypto1_value = ''BTCUSDT'', crypto2_value = ''ETHUSDT'',
        crypto_data_text = ''Error fetching data.''\<rparr>"
      "Fulfilled \<lparr>status = 200, body = Some (JObject [(''quoteVolume'', JString ''1000'')])\<rparr>"
      "Fulfilled \<lparr>status = 200, body = Some (JObject [(''quoteVolume'', JString ''500'')])\<rparr>"]
  by simp

end
